theory Spec2Isabelle
  imports Complex_Main "HOL-Library.AList"
begin

section \<open>The proposal store: \<^verbatim>\<open>managers/pending_action_manager.py\<close>\<close>

text \<open>
  The store only compares datetimes and adds fixed durations to them, so a datetime
  is modelled here by its count of microseconds (the resolution of Python's
  \<^verbatim>\<open>datetime\<close>), and a \<^verbatim>\<open>timedelta\<close> by a number of microseconds.
  Every call of \<^verbatim>\<open>datetime.now()\<close> is a separate reading of the wall clock: each
  reading is an argument of the operation that takes it, in the order of the source.
  The actions and results that the store carries without looking inside them are
  kept as their JSON text.
\<close>

type_synonym instant = int
type_synonym json_text = string

definition minutes :: "int \<Rightarrow> int" where
  "minutes n = n * 60 * 1000000"

definition hours :: "int \<Rightarrow> int" where
  "hours n = n * 3600 * 1000000"

text \<open>
  The dictionary built by \<^verbatim>\<open>create_pending_action\<close>; the four keys added later by
  the transitions are absent (\<open>None\<close>) until then.
\<close>

record pending_action =
  action_id :: string
  session_id :: string
  created_at :: instant
  expires_at :: instant
  original_action :: json_text
  suggested_action :: json_text
  llm_suggestion :: string
  status :: string
  confirmed_at :: "instant option"
  rejected_at :: "instant option"
  executed_at :: "instant option"
  execution_result :: "json_text option"

record PendingActionManager =
  pending_actions :: "string \<rightharpoonup> pending_action"
  expiry_minutes :: int

definition init_manager :: PendingActionManager where
  "init_manager = \<lparr>pending_actions = Map.empty, expiry_minutes = 30\<rparr>"

text \<open>
  \<^verbatim>\<open>_cleanup_expired\<close>: one clock reading; the first loop reclassifies the pending
  proposals whose time has passed, the second collects the ids to delete, the third
  deletes them.
\<close>

definition mark_expired :: "instant \<Rightarrow> pending_action \<Rightarrow> pending_action" where
  "mark_expired now a =
     (if now > expires_at a \<and> status a = ''pending'' then a\<lparr>status := ''expired''\<rparr> else a)"

definition cleanup_expired :: "instant \<Rightarrow> PendingActionManager \<Rightarrow> PendingActionManager" where
  "cleanup_expired now m =
     (let marked = (\<lambda>k. map_option (mark_expired now) (pending_actions m k));
          cutoff = now - hours 24;
          swept = (\<lambda>k. case marked k of
                           None \<Rightarrow> None
                         | Some a \<Rightarrow> if expires_at a < cutoff then None else Some a)
      in m\<lparr>pending_actions := swept\<rparr>)"

text \<open>
  \<^verbatim>\<open>create_pending_action\<close>. The id is an f-string of \<^verbatim>\<open>int(time.time())\<close> and of
  eight hexadecimal digits of a fresh UUID: the formatted string is the argument
  \<open>new_id\<close>. \<open>t_created\<close> and \<open>t_expiry\<close> are the two readings of lines 20 and 21,
  \<open>t_sweep\<close> the one of the sweep that follows the insertion.
\<close>

definition create_pending_action ::
  "string \<Rightarrow> instant \<Rightarrow> instant \<Rightarrow> instant \<Rightarrow> PendingActionManager \<Rightarrow>
   string \<Rightarrow> json_text \<Rightarrow> json_text \<Rightarrow> string \<Rightarrow> string \<times> PendingActionManager" where
  "create_pending_action new_id t_created t_expiry t_sweep m sid orig sugg llm =
     (let pending_data = \<lparr>action_id = new_id, session_id = sid, created_at = t_created,
                           expires_at = t_expiry + minutes (expiry_minutes m),
                           original_action = orig, suggested_action = sugg,
                           llm_suggestion = llm, status = ''pending'',
                           confirmed_at = None, rejected_at = None, executed_at = None,
                           execution_result = None\<rparr>;
          m1 = m\<lparr>pending_actions := (pending_actions m)(new_id \<mapsto> pending_data)\<rparr>
      in (new_id, cleanup_expired t_sweep m1))"

definition get_pending_action ::
  "instant \<Rightarrow> PendingActionManager \<Rightarrow> string \<Rightarrow> pending_action option \<times> PendingActionManager" where
  "get_pending_action t_sweep m aid =
     (let m1 = cleanup_expired t_sweep m in (pending_actions m1 aid, m1))"

text \<open>
  \<^verbatim>\<open>confirm_action\<close>: \<open>t_check\<close> is the reading compared with \<^verbatim>\<open>expires_at\<close>,
  \<open>t_stamp\<close> the later one stored in \<^verbatim>\<open>confirmed_at\<close>. The dictionary of the
  proposal is updated in place, so the store changes with it; the value returned is
  that same dictionary, or \<^verbatim>\<open>None\<close>.
\<close>

definition confirm_action ::
  "instant \<Rightarrow> instant \<Rightarrow> PendingActionManager \<Rightarrow> string \<Rightarrow>
   pending_action option \<times> PendingActionManager" where
  "confirm_action t_check t_stamp m aid =
     (case pending_actions m aid of
        None \<Rightarrow> (None, m)
      | Some action \<Rightarrow>
          if status action \<noteq> ''pending'' then (None, m)
          else if t_check > expires_at action then
            (None, m\<lparr>pending_actions := (pending_actions m)(aid \<mapsto> action\<lparr>status := ''expired''\<rparr>)\<rparr>)
          else
            (let action' = action\<lparr>status := ''confirmed'', confirmed_at := Some t_stamp\<rparr>
             in (Some action', m\<lparr>pending_actions := (pending_actions m)(aid \<mapsto> action')\<rparr>)))"

definition reject_action ::
  "instant \<Rightarrow> PendingActionManager \<Rightarrow> string \<Rightarrow> pending_action option \<times> PendingActionManager" where
  "reject_action t_stamp m aid =
     (case pending_actions m aid of
        None \<Rightarrow> (None, m)
      | Some action \<Rightarrow>
          if status action = ''pending'' then
            (let action' = action\<lparr>status := ''rejected'', rejected_at := Some t_stamp\<rparr>
             in (Some action', m\<lparr>pending_actions := (pending_actions m)(aid \<mapsto> action')\<rparr>))
          else (None, m))"

definition mark_executed ::
  "instant \<Rightarrow> PendingActionManager \<Rightarrow> string \<Rightarrow> json_text \<Rightarrow>
   pending_action option \<times> PendingActionManager" where
  "mark_executed t_stamp m aid result =
     (case pending_actions m aid of
        None \<Rightarrow> (None, m)
      | Some action \<Rightarrow>
          (let action' = action\<lparr>status := ''executed'', executed_at := Some t_stamp,
                                 execution_result := Some result\<rparr>
           in (Some action', m\<lparr>pending_actions := (pending_actions m)(aid \<mapsto> action')\<rparr>)))"

text \<open>
  The causes of failure that the specification names for \<open>Confirm\<close> and \<open>Reject\<close>,
  read off the state in which the call is made. These two functions follow the
  words of the specification (section 4.1); they are what the code's result is
  compared with.
\<close>

datatype failure = NotFound | AlreadyProcessed | Expired

definition spec_confirm_failure :: "instant \<Rightarrow> PendingActionManager \<Rightarrow> string \<Rightarrow> failure option" where
  "spec_confirm_failure now m aid =
     (case pending_actions m aid of
        None \<Rightarrow> Some NotFound
      | Some a \<Rightarrow> if status a \<noteq> ''pending'' then Some AlreadyProcessed
                  else if now > expires_at a then Some Expired else None)"

definition spec_reject_failure :: "PendingActionManager \<Rightarrow> string \<Rightarrow> failure option" where
  "spec_reject_failure m aid =
     (case pending_actions m aid of
        None \<Rightarrow> Some NotFound
      | Some a \<Rightarrow> if status a \<noteq> ''pending'' then Some AlreadyProcessed else None)"

text \<open>A proposal of session \<open>s1\<close>, created at instant 0 with the TTL of 30 minutes.\<close>

definition sample_action :: pending_action where
  "sample_action =
     \<lparr>action_id = ''p1'', session_id = ''s1'', created_at = 0, expires_at = minutes 30,
      original_action = ''{}'', suggested_action = ''{}'', llm_suggestion = ''Add related items?'',
      status = ''pending'', confirmed_at = None, rejected_at = None, executed_at = None,
      execution_result = None\<rparr>"

definition sample_manager :: PendingActionManager where
  "sample_manager = \<lparr>pending_actions = [''p1'' \<mapsto> sample_action], expiry_minutes = 30\<rparr>"

section \<open>The feedback ledger: \<^verbatim>\<open>services/learning_database.py\<close>\<close>

text \<open>
  The exceptions that the modelled code can raise.
\<close>

datatype error = KeyError | TypeError | AttributeError | ValueError | ZeroDivisionError

subsection \<open>Datetimes and their ISO text\<close>

text \<open>
  The ledger renders datetimes with \<^verbatim>\<open>isoformat()\<close>, parses them back with
  \<^verbatim>\<open>fromisoformat\<close> and reads their hour, so a (naive) datetime is modelled here
  by its calendar fields. Python only builds datetimes whose fields are in range:
  \<open>valid_datetime\<close>.
\<close>

record datetime =
  year :: nat
  month :: nat
  day :: nat
  hour :: nat
  minute :: nat
  second :: nat
  microsecond :: nat

definition leap_year :: "nat \<Rightarrow> bool" where
  "leap_year y = (y mod 4 = 0 \<and> (y mod 100 \<noteq> 0 \<or> y mod 400 = 0))"

definition days_in_month :: "nat \<Rightarrow> nat \<Rightarrow> nat" where
  "days_in_month y m =
     (if m = 2 then (if leap_year y then 29 else 28)
      else if m = 4 \<or> m = 6 \<or> m = 9 \<or> m = 11 then 30 else 31)"

definition valid_datetime :: "datetime \<Rightarrow> bool" where
  "valid_datetime t =
     (1 \<le> year t \<and> year t \<le> 9999 \<and> 1 \<le> month t \<and> month t \<le> 12 \<and>
      1 \<le> day t \<and> day t \<le> days_in_month (year t) (month t) \<and>
      hour t < 24 \<and> minute t < 60 \<and> second t < 60 \<and> microsecond t < 1000000)"

definition digit_char :: "nat \<Rightarrow> char" where
  "digit_char d = char_of (48 + d)"

text \<open>The last \<open>k\<close> decimal digits of \<open>n\<close>, as \<^verbatim>\<open>'%0kd'\<close> writes a number below \<open>10 ^ k\<close>.\<close>

fun zero_pad :: "nat \<Rightarrow> nat \<Rightarrow> string" where
  "zero_pad 0 n = []"
| "zero_pad (Suc k) n = zero_pad k (n div 10) @ [digit_char (n mod 10)]"

text \<open>
  \<^verbatim>\<open>datetime.isoformat()\<close> of a naive datetime: \<^verbatim>\<open>YYYY-MM-DDTHH:MM:SS\<close>, followed
  by \<^verbatim>\<open>.ffffff\<close> when the microsecond is not 0.
\<close>

definition isoformat :: "datetime \<Rightarrow> string" where
  "isoformat t =
     zero_pad 4 (year t) @ ''-'' @ zero_pad 2 (month t) @ ''-'' @ zero_pad 2 (day t) @ ''T'' @
     zero_pad 2 (hour t) @ '':'' @ zero_pad 2 (minute t) @ '':'' @ zero_pad 2 (second t) @
     (if microsecond t = 0 then [] else ''.'' @ zero_pad 6 (microsecond t))"

definition digit_value :: "char \<Rightarrow> nat option" where
  "digit_value c =
     (let n = (of_char c :: nat) in if 48 \<le> n \<and> n \<le> 57 then Some (n - 48) else None)"

fun parse_digits :: "nat \<Rightarrow> string \<Rightarrow> nat option" where
  "parse_digits acc [] = Some acc"
| "parse_digits acc (c # cs) =
     (case digit_value c of None \<Rightarrow> None | Some d \<Rightarrow> parse_digits (10 * acc + d) cs)"

definition parse_field :: "string \<Rightarrow> nat \<Rightarrow> nat \<Rightarrow> nat option" where
  "parse_field s pos len = parse_digits 0 (take len (drop pos s))"

text \<open>
  \<^verbatim>\<open>datetime.fromisoformat\<close>. Of the strings that Python accepts, the model accepts
  the two layouts that \<open>isoformat\<close> writes for a naive datetime, with every field in
  range; any other string is a \<^verbatim>\<open>ValueError\<close> (\<open>None\<close>) here.
\<close>

definition fromisoformat :: "string \<Rightarrow> datetime option" where
  "fromisoformat s =
     (if (length s = 19 \<or> (length s = 26 \<and> s ! 19 = CHR ''.'')) \<and>
         s ! 4 = CHR ''-'' \<and> s ! 7 = CHR ''-'' \<and> s ! 10 = CHR ''T'' \<and>
         s ! 13 = CHR '':'' \<and> s ! 16 = CHR '':''
      then
        (case (parse_field s 0 4, parse_field s 5 2, parse_field s 8 2, parse_field s 11 2,
               parse_field s 14 2, parse_field s 17 2,
               if length s = 19 then Some 0 else parse_field s 20 6) of
           (Some y, Some mo, Some d, Some h, Some mi, Some se, Some us) \<Rightarrow>
             (let t = \<lparr>year = y, month = mo, day = d, hour = h, minute = mi, second = se,
                       microsecond = us\<rparr>
              in if valid_datetime t then Some t else None)
         | _ \<Rightarrow> None)
      else None)"

subsection \<open>Strings, slices and dictionaries\<close>

text \<open>
  \<^verbatim>\<open>str.lower()\<close> follows Python's table of Unicode case mappings, which is no part
  of the repository: the function from a string to its lowered string is an
  argument, \<open>lw\<close>, of every function that calls it, and nothing is assumed about it.
  \<^verbatim>\<open>xs[-n:]\<close> for a positive \<open>n\<close> is \<open>last_n\<close>, \<^verbatim>\<open>xs[:n]\<close> is \<open>take\<close>;
  \<^verbatim>\<open>d.get(k, default)\<close> on a key that may be absent is \<open>dict_get\<close>.
\<close>

type_synonym lowering = "string \<Rightarrow> string"

definition last_n :: "nat \<Rightarrow> 'a list \<Rightarrow> 'a list" where
  "last_n n xs = drop (length xs - n) xs"

definition dict_get :: "'a option \<Rightarrow> 'a \<Rightarrow> 'a" where
  "dict_get v dflt = (case v of None \<Rightarrow> dflt | Some x \<Rightarrow> x)"

subsection \<open>The data carried by a feedback entry\<close>

text \<open>
  The suggestion context is JSON sent by the caller. The model covers contexts of
  the documented shape: under \<^verbatim>\<open>original_action\<close> a dictionary with the keys
  \<^verbatim>\<open>type\<close> and \<^verbatim>\<open>payload\<close>, under \<^verbatim>\<open>payload\<close> a dictionary with the key
  \<^verbatim>\<open>screen\<close>; each key may be absent (\<open>None\<close> of the option), and the values of
  \<^verbatim>\<open>type\<close> and \<^verbatim>\<open>screen\<close> are a string or JSON \<^verbatim>\<open>null\<close> (\<open>PyNone\<close>).
  \<^verbatim>\<open>suggested_action\<close> is a dictionary or missing (absent or \<^verbatim>\<open>null\<close>, which the
  code does not tell apart); \<^verbatim>\<open>business_suggestion\<close> is a string or absent;
  \<^verbatim>\<open>business_context\<close> is a dictionary or absent.
\<close>

datatype pyval = PyNone | PyStr string

record action_payload =
  pl_screen :: "pyval option"

record action =
  act_type :: "pyval option"
  act_payload :: "action_payload option"

record suggested =
  sa_method :: "string option"
  sa_endpoint :: "string option"
  sa_body :: "json_text option"

record business_ctx =
  bc_session_length :: "int option"
  bc_action_frequency :: "(string \<times> int) list option"
  bc_most_common_screens :: "string list option"

record suggestion_context =
  sc_original_action :: "action option"
  sc_suggested_action :: "suggested option"
  sc_business_suggestion :: "string option"
  sc_business_context :: "business_ctx option"

definition empty_action :: action where
  "empty_action = \<lparr>act_type = None, act_payload = None\<rparr>"

definition empty_payload :: action_payload where
  "empty_payload = \<lparr>pl_screen = None\<rparr>"

definition empty_ctx :: business_ctx where
  "empty_ctx = \<lparr>bc_session_length = None, bc_action_frequency = None,
                 bc_most_common_screens = None\<rparr>"

record session_pattern =
  session_length :: int
  action_frequency :: "(string \<times> int) list"
  common_screens :: "string list"
  time_of_day :: nat

record pattern_features =
  action_type :: pyval
  screen :: pyval
  suggested_method :: "string option"
  suggested_endpoint :: "string option"
  business_context :: business_ctx
  session_pattern :: session_pattern

record LearningEntry =
  entry_id :: string
  timestamp :: datetime
  suggestion_context :: suggestion_context
  user_action :: string
  feedback_reason :: "string option"
  entry_execution_result :: "json_text option"
  context_hash :: string
  pattern_features :: pattern_features

text \<open>
  \<^verbatim>\<open>_generate_context_hash\<close>: \<^verbatim>\<open>str(hash(json.dumps({...}, sort_keys=True)))\<close> is a
  function, fixed for the life of the process, of the three values put in the
  dictionary; it is the argument \<open>h\<close>.
\<close>

type_synonym context_hasher = "pyval \<Rightarrow> pyval \<Rightarrow> string \<Rightarrow> string"

definition generate_context_hash :: "context_hasher \<Rightarrow> suggestion_context \<Rightarrow> string" where
  "generate_context_hash h sc =
     (let oa = dict_get (sc_original_action sc) empty_action
      in h (dict_get (act_type oa) PyNone)
           (dict_get (pl_screen (dict_get (act_payload oa) empty_payload)) PyNone)
           (take 100 (dict_get (sc_business_suggestion sc) [])))"

definition analyze_session_pattern :: "datetime \<Rightarrow> suggestion_context \<Rightarrow> session_pattern" where
  "analyze_session_pattern ts sc =
     (let bc = dict_get (sc_business_context sc) empty_ctx
      in \<lparr>session_length = dict_get (bc_session_length bc) 0,
          action_frequency = dict_get (bc_action_frequency bc) [],
          common_screens = dict_get (bc_most_common_screens bc) [],
          time_of_day = hour ts\<rparr>)"

definition extract_pattern_features :: "datetime \<Rightarrow> suggestion_context \<Rightarrow> pattern_features" where
  "extract_pattern_features ts sc =
     (let oa = dict_get (sc_original_action sc) empty_action;
          sa = sc_suggested_action sc
      in \<lparr>action_type = dict_get (act_type oa) PyNone,
          screen = dict_get (pl_screen (dict_get (act_payload oa) empty_payload)) PyNone,
          suggested_method = (case sa of None \<Rightarrow> None | Some d \<Rightarrow> sa_method d),
          suggested_endpoint = (case sa of None \<Rightarrow> None | Some d \<Rightarrow> sa_endpoint d),
          business_context = dict_get (sc_business_context sc) empty_ctx,
          session_pattern = analyze_session_pattern ts sc\<rparr>)"

text \<open>
  \<^verbatim>\<open>LearningEntry.__init__\<close>: \<open>new_uuid\<close> is \<^verbatim>\<open>str(uuid.uuid4())\<close> and \<open>now\<close> the
  reading of the clock.
\<close>

definition new_LearningEntry ::
  "context_hasher \<Rightarrow> string \<Rightarrow> datetime \<Rightarrow> suggestion_context \<Rightarrow> string \<Rightarrow> string option \<Rightarrow>
   json_text option \<Rightarrow> LearningEntry" where
  "new_LearningEntry h new_uuid now sc ua reason res =
     \<lparr>entry_id = new_uuid, timestamp = now, suggestion_context = sc, user_action = ua,
      feedback_reason = reason, entry_execution_result = res,
      context_hash = generate_context_hash h sc,
      pattern_features = extract_pattern_features now sc\<rparr>"

text \<open>
  The dictionary written by \<^verbatim>\<open>to_dict\<close> and read by \<^verbatim>\<open>from_dict\<close>. A key read with
  \<^verbatim>\<open>data[...]\<close> may be absent (\<open>None\<close>, a \<^verbatim>\<open>KeyError\<close>); the two keys read with
  \<^verbatim>\<open>data.get(...)\<close> hold a value or nothing.
\<close>

record entry_dict =
  d_id :: "string option"
  d_timestamp :: "string option"
  d_suggestion_context :: "suggestion_context option"
  d_user_action :: "string option"
  d_feedback_reason :: "string option"
  d_execution_result :: "json_text option"
  d_context_hash :: "string option"
  d_pattern_features :: "pattern_features option"

definition to_dict :: "LearningEntry \<Rightarrow> entry_dict" where
  "to_dict e =
     \<lparr>d_id = Some (entry_id e), d_timestamp = Some (isoformat (timestamp e)),
      d_suggestion_context = Some (suggestion_context e), d_user_action = Some (user_action e),
      d_feedback_reason = feedback_reason e, d_execution_result = entry_execution_result e,
      d_context_hash = Some (context_hash e), d_pattern_features = Some (pattern_features e)\<rparr>"

text \<open>
  \<^verbatim>\<open>from_dict\<close> first runs the constructor (with a fresh UUID and clock reading,
  and recomputing hash and features), then overwrites the four derived fields
  with the stored ones.
\<close>

definition from_dict ::
  "context_hasher \<Rightarrow> string \<Rightarrow> datetime \<Rightarrow> entry_dict \<Rightarrow> error + LearningEntry" where
  "from_dict h new_uuid now data =
     (case d_suggestion_context data of
        None \<Rightarrow> Inl KeyError
      | Some sc \<Rightarrow>
     (case d_user_action data of
        None \<Rightarrow> Inl KeyError
      | Some ua \<Rightarrow>
     (let entry = new_LearningEntry h new_uuid now sc ua (d_feedback_reason data)
                    (d_execution_result data)
      in case d_id data of
           None \<Rightarrow> Inl KeyError
         | Some i \<Rightarrow>
        (case d_timestamp data of
           None \<Rightarrow> Inl KeyError
         | Some ts \<Rightarrow>
        (case fromisoformat ts of
           None \<Rightarrow> Inl ValueError
         | Some t \<Rightarrow>
        (case d_context_hash data of
           None \<Rightarrow> Inl KeyError
         | Some ch \<Rightarrow>
        (case d_pattern_features data of
           None \<Rightarrow> Inl KeyError
         | Some pf \<Rightarrow>
             Inr (entry\<lparr>entry_id := i, timestamp := t, context_hash := ch,
                        pattern_features := pf\<rparr>))))))))"

subsection \<open>Pattern statistics\<close>

text \<open>
  Python's floats are modelled by the reals: the quotient of two counters, the
  constants 0.3, 0.5, 0.2 and 0.9 and their sums are the exact numbers. The
  dictionary of rejection reasons keeps its insertion order (an association list);
  the summary of a rejected suggestion has the extra key \<^verbatim>\<open>reason\<close>.
\<close>

record summary =
  business_suggestion :: string
  sum_suggested_action :: "suggested option"
  sum_timestamp :: string
  reason :: "string option option"

record pattern_stats =
  total_suggestions :: int
  accepted :: int
  rejected :: int
  ignored :: int
  success_rate :: real
  common_rejection_reasons :: "(string \<times> int) list"
  successful_suggestions :: "summary list"
  failed_suggestions :: "summary list"
  last_updated :: string

record LearningDatabase =
  entries :: "LearningEntry list"
  patterns :: "string \<rightharpoonup> pattern_stats"

definition init_db :: LearningDatabase where
  "init_db = \<lparr>entries = [], patterns = Map.empty\<rparr>"

text \<open>An f-string writes \<^verbatim>\<open>None\<close> as the four letters and a string as itself.\<close>

definition format_value :: "pyval \<Rightarrow> string" where
  "format_value v = (case v of PyNone \<Rightarrow> ''None'' | PyStr s \<Rightarrow> s)"

definition make_pattern_key :: "pyval \<Rightarrow> pyval \<Rightarrow> string" where
  "make_pattern_key a s = format_value a @ ''_'' @ format_value s"

definition new_pattern :: "datetime \<Rightarrow> pattern_stats" where
  "new_pattern now =
     \<lparr>total_suggestions = 0, accepted = 0, rejected = 0, ignored = 0, success_rate = 0,
      common_rejection_reasons = [], successful_suggestions = [], failed_suggestions = [],
      last_updated = isoformat now\<rparr>"

text \<open>
  \<^verbatim>\<open>pattern[entry.user_action] += 1\<close>: the user action is any string, used as a key
  of the pattern dictionary. On the four counters and on the rate the addition goes
  through; on the keys that hold a dictionary, a list or a string it is a
  \<^verbatim>\<open>TypeError\<close>; any other key is a \<^verbatim>\<open>KeyError\<close>.
\<close>

definition increment_key :: "pattern_stats \<Rightarrow> string \<Rightarrow> error + pattern_stats" where
  "increment_key p k =
     (if k = ''total_suggestions'' then Inr (p\<lparr>total_suggestions := total_suggestions p + 1\<rparr>)
      else if k = ''accepted'' then Inr (p\<lparr>accepted := accepted p + 1\<rparr>)
      else if k = ''rejected'' then Inr (p\<lparr>rejected := rejected p + 1\<rparr>)
      else if k = ''ignored'' then Inr (p\<lparr>ignored := ignored p + 1\<rparr>)
      else if k = ''success_rate'' then Inr (p\<lparr>success_rate := success_rate p + 1\<rparr>)
      else if k = ''common_rejection_reasons'' \<or> k = ''successful_suggestions'' \<or>
              k = ''failed_suggestions'' \<or> k = ''last_updated'' then Inl TypeError
      else Inl KeyError)"

definition make_summary :: "LearningEntry \<Rightarrow> summary" where
  "make_summary entry =
     \<lparr>business_suggestion =
        take 200 (dict_get (sc_business_suggestion (suggestion_context entry)) []),
      sum_suggested_action = sc_suggested_action (suggestion_context entry),
      sum_timestamp = isoformat (timestamp entry),
      reason = None\<rparr>"

text \<open>
  \<^verbatim>\<open>_update_patterns\<close>. \<open>t_new\<close> is the clock reading taken when the pattern is
  created, \<open>t_upd\<close> the one stored in \<^verbatim>\<open>last_updated\<close>. The pattern dictionary is
  updated in place, so an exception leaves in the table what was written before
  it: the result is the exception, if any, and the table.
\<close>

definition update_patterns ::
  "datetime \<Rightarrow> datetime \<Rightarrow> (string \<rightharpoonup> pattern_stats) \<Rightarrow> LearningEntry \<Rightarrow>
   error option \<times> (string \<rightharpoonup> pattern_stats)" where
  "update_patterns t_new t_upd pats entry =
     (let pattern_key = make_pattern_key (action_type (pattern_features entry))
                          (screen (pattern_features entry));
          pattern = (case pats pattern_key of None \<Rightarrow> new_pattern t_new | Some p \<Rightarrow> p);
          p1 = pattern\<lparr>total_suggestions := total_suggestions pattern + 1\<rparr>
      in case increment_key p1 (user_action entry) of
           Inl e \<Rightarrow> (Some e, pats(pattern_key \<mapsto> p1))
         | Inr p2 \<Rightarrow>
             if total_suggestions p2 = 0 then (Some ZeroDivisionError, pats(pattern_key \<mapsto> p2))
             else
               (let p3 = p2\<lparr>success_rate := of_int (accepted p2) / of_int (total_suggestions p2),
                            last_updated := isoformat t_upd\<rparr>;
                    p4 = (if user_action entry = ''rejected'' \<and> feedback_reason entry \<noteq> None \<and>
                             feedback_reason entry \<noteq> Some []
                          then (let reasons = common_rejection_reasons p3;
                                    r = the (feedback_reason entry)
                                in p3\<lparr>common_rejection_reasons :=
                                       AList.update r (dict_get (map_of reasons r) 0 + 1) reasons\<rparr>)
                          else p3);
                    suggestion_summary = make_summary entry;
                    p5 = (if user_action entry = ''accepted'' then
                            p4\<lparr>successful_suggestions :=
                                 last_n 10 (successful_suggestions p4 @ [suggestion_summary])\<rparr>
                          else if user_action entry = ''rejected'' then
                            p4\<lparr>failed_suggestions :=
                                 last_n 10 (failed_suggestions p4 @
                                   [suggestion_summary\<lparr>reason := Some (feedback_reason entry)\<rparr>])\<rparr>
                          else p4)
                in (None, pats(pattern_key \<mapsto> p5))))"

text \<open>
  \<^verbatim>\<open>record_feedback\<close>. The three clock readings and the UUID of one call are its
  \<open>readings\<close>. Writing the two files and refreshing the vector store change nothing
  in memory and swallow their own exceptions: they are not modelled. An exception
  of \<^verbatim>\<open>_update_patterns\<close> is caught by the method, which then returns \<^verbatim>\<open>None\<close>;
  the entry is in the ledger by then.
\<close>

record readings =
  fresh_uuid :: string
  t_entry :: datetime
  t_pattern :: datetime
  t_update :: datetime

definition record_feedback ::
  "context_hasher \<Rightarrow> readings \<Rightarrow> LearningDatabase \<Rightarrow> string \<Rightarrow> suggestion_context \<Rightarrow> string \<Rightarrow>
   string option \<Rightarrow> json_text option \<Rightarrow> string option \<times> LearningDatabase" where
  "record_feedback h rd db aid sc ua rsn res =
     (let entry = new_LearningEntry h (fresh_uuid rd) (t_entry rd) sc ua rsn res;
          db1 = db\<lparr>entries := entries db @ [entry]\<rparr>
      in case update_patterns (t_pattern rd) (t_update rd) (patterns db1) entry of
           (Some e, pats) \<Rightarrow> (None, db1\<lparr>patterns := pats\<rparr>)
         | (None, pats) \<Rightarrow> (Some (entry_id entry), db1\<lparr>patterns := pats\<rparr>))"

text \<open>A call of \<^verbatim>\<open>record_feedback\<close> with its readings, and a sequence of calls.\<close>

record feedback_call =
  fc_readings :: readings
  fc_action_id :: string
  fc_context :: suggestion_context
  fc_user_action :: string
  fc_reason :: "string option"
  fc_result :: "json_text option"

definition record_call :: "context_hasher \<Rightarrow> LearningDatabase \<Rightarrow> feedback_call \<Rightarrow> LearningDatabase" where
  "record_call h db c =
     snd (record_feedback h (fc_readings c) db (fc_action_id c) (fc_context c) (fc_user_action c)
            (fc_reason c) (fc_result c))"

definition record_all :: "context_hasher \<Rightarrow> LearningDatabase \<Rightarrow> feedback_call list \<Rightarrow> LearningDatabase" where
  "record_all h db cs = foldl (record_call h) db cs"

subsection \<open>Guidance\<close>

record similar =
  sim_action :: string
  similarity_score :: real
  sim_business_suggestion :: string
  sim_feedback_reason :: "string option"
  sim_timestamp :: string

record guidance =
  should_suggest :: bool
  confidence_score :: real
  suggested_approach :: string
  avoid_patterns :: "string list"
  preferred_patterns :: "string list"
  historical_success_rate :: real
  similar_contexts :: "similar list"

text \<open>
  The result of \<^verbatim>\<open>get_suggestion_guidance\<close> is the full dictionary, or, when an
  exception was caught, the dictionary with the two keys \<^verbatim>\<open>should_suggest\<close> and
  \<^verbatim>\<open>confidence_score\<close> only.
\<close>

datatype guidance_result = Guidance guidance | Fallback bool real

text \<open>
  \<^verbatim>\<open>_contexts_similar\<close>: both sets must be non-empty, and the quotient of the sizes of
  intersection and union must exceed 0.3.
\<close>

definition contexts_similar :: "business_ctx \<Rightarrow> business_ctx \<Rightarrow> bool" where
  "contexts_similar context1 context2 =
     (let common_screens1 = set (dict_get (bc_most_common_screens context1) []);
          common_screens2 = set (dict_get (bc_most_common_screens context2) [])
      in if common_screens1 \<noteq> {} \<and> common_screens2 \<noteq> {} then
           (let overlap = card (common_screens1 \<inter> common_screens2);
                union = card (common_screens1 \<union> common_screens2)
            in if union > 0 then real overlap / real union > 3 / 10 else False)
         else False)"

text \<open>
  \<^verbatim>\<open>action.get("payload", {}).get("screen", "").lower()\<close>: an absent key gives the
  empty string, a \<^verbatim>\<open>null\<close> screen has no method \<^verbatim>\<open>lower\<close>.
\<close>

definition screen_lower :: "lowering \<Rightarrow> action \<Rightarrow> error + string" where
  "screen_lower lw a =
     (case dict_get (pl_screen (dict_get (act_payload a) empty_payload)) (PyStr []) of
        PyNone \<Rightarrow> Inl AttributeError
      | PyStr s \<Rightarrow> Inr (lw s))"

text \<open>
  The body of the loop of \<^verbatim>\<open>_find_similar_contexts\<close> for one entry: the exception
  raised, or the dictionary appended to \<^verbatim>\<open>similar\<close>, if any.
\<close>

definition similarity_of ::
  "lowering \<Rightarrow> string \<Rightarrow> pyval \<Rightarrow> business_ctx \<Rightarrow> LearningEntry \<Rightarrow> error + similar option" where
  "similarity_of lw current_screen current_type bc entry =
     (let entry_action = dict_get (sc_original_action (suggestion_context entry)) empty_action
      in case screen_lower lw entry_action of
           Inl e \<Rightarrow> Inl e
         | Inr entry_screen \<Rightarrow>
             (let entry_type = dict_get (act_type entry_action) (PyStr []);
                  s0 = (0 :: real);
                  s1 = (if entry_screen = current_screen then s0 + 5 / 10 else s0);
                  s2 = (if entry_type = current_type then s1 + 3 / 10 else s1);
                  entry_context = dict_get (sc_business_context (suggestion_context entry)) empty_ctx;
                  s3 = (if contexts_similar bc entry_context then s2 + 2 / 10 else s2)
              in if s3 \<ge> 5 / 10 then
                   Inr (Some \<lparr>sim_action = user_action entry, similarity_score = s3,
                              sim_business_suggestion =
                                take 100 (dict_get (sc_business_suggestion (suggestion_context entry)) []),
                              sim_feedback_reason = feedback_reason entry,
                              sim_timestamp = isoformat (timestamp entry)\<rparr>)
                 else Inr None))"

fun scan_entries ::
  "lowering \<Rightarrow> string \<Rightarrow> pyval \<Rightarrow> business_ctx \<Rightarrow> LearningEntry list \<Rightarrow> similar list \<Rightarrow>
   error + similar list" where
  "scan_entries lw cs ct bc [] acc = Inr acc"
| "scan_entries lw cs ct bc (e # es) acc =
     (case similarity_of lw cs ct bc e of
        Inl err \<Rightarrow> Inl err
      | Inr None \<Rightarrow> scan_entries lw cs ct bc es acc
      | Inr (Some x) \<Rightarrow> scan_entries lw cs ct bc es (acc @ [x]))"

definition find_similar_contexts ::
  "lowering \<Rightarrow> LearningEntry list \<Rightarrow> action \<Rightarrow> business_ctx \<Rightarrow> error + similar list" where
  "find_similar_contexts lw es current_action bc =
     (case screen_lower lw current_action of
        Inl e \<Rightarrow> Inl e
      | Inr current_screen \<Rightarrow>
          (let current_type = dict_get (act_type current_action) (PyStr [])
           in case scan_entries lw current_screen current_type bc (last_n 50 es) [] of
                Inl e \<Rightarrow> Inl e
              | Inr similar \<Rightarrow> Inr (take 5 (sort_key (\<lambda>x. - similarity_score x) similar))))"

text \<open>
  \<^verbatim>\<open>get_suggestion_guidance\<close>. \<open>guidance_key\<close> is the pattern key of lines 350 to
  352, \<open>pattern_guidance\<close> the dictionary as it stands before the similarity scan.
  Any exception is caught and answered with the two-key dictionary.
\<close>

definition guidance_key :: "action \<Rightarrow> string" where
  "guidance_key current_action =
     (let action_type = dict_get (act_type current_action) PyNone;
          screen = dict_get (pl_screen (dict_get (act_payload current_action) empty_payload)) PyNone
      in make_pattern_key action_type screen)"

definition default_guidance :: guidance where
  "default_guidance =
     \<lparr>should_suggest = True, confidence_score = 5 / 10, suggested_approach = ''standard'',
      avoid_patterns = [], preferred_patterns = [], historical_success_rate = 0,
      similar_contexts = []\<rparr>"

definition pattern_guidance :: "pattern_stats option \<Rightarrow> guidance" where
  "pattern_guidance found =
     (case found of
        None \<Rightarrow> default_guidance
      | Some pattern \<Rightarrow>
          (let g1 = default_guidance\<lparr>historical_success_rate := success_rate pattern,
                                     confidence_score := min (9 / 10) (success_rate pattern)\<rparr>;
               g2 = (if success_rate pattern < 3 / 10
                     then g1\<lparr>should_suggest := False, suggested_approach := ''cautious''\<rparr>
                     else g1);
               top_rejections = take 3 (sort_key (\<lambda>x. - snd x) (common_rejection_reasons pattern))
           in g2\<lparr>avoid_patterns := map fst top_rejections,
                 preferred_patterns :=
                   map business_suggestion (last_n 3 (successful_suggestions pattern))\<rparr>))"

definition get_suggestion_guidance ::
  "lowering \<Rightarrow> LearningDatabase \<Rightarrow> action \<Rightarrow> business_ctx \<Rightarrow> guidance_result" where
  "get_suggestion_guidance lw db current_action bc =
     (let guidance = pattern_guidance (patterns db (guidance_key current_action))
      in case find_similar_contexts lw (entries db) current_action bc of
           Inl e \<Rightarrow> Fallback True (5 / 10)
         | Inr found_similar \<Rightarrow> Guidance (guidance\<lparr>similar_contexts := found_similar\<rparr>))"

subsection \<open>Notions used in the statements about the ledger\<close>

text \<open>
  The key under which an entry is aggregated, the same key computed from a
  suggestion context, the user actions that the docstring of \<^verbatim>\<open>record_feedback\<close>
  lists, the calls of a sequence that fall under a key, and the entry that a call
  builds.
\<close>

definition entry_key :: "LearningEntry \<Rightarrow> string" where
  "entry_key e = make_pattern_key (action_type (pattern_features e)) (screen (pattern_features e))"

definition context_key :: "suggestion_context \<Rightarrow> string" where
  "context_key sc = guidance_key (dict_get (sc_original_action sc) empty_action)"

definition valid_user_action :: "string \<Rightarrow> bool" where
  "valid_user_action ua = (ua = ''accepted'' \<or> ua = ''rejected'' \<or> ua = ''ignored'')"

definition calls_for :: "string \<Rightarrow> feedback_call list \<Rightarrow> feedback_call list" where
  "calls_for k cs = filter (\<lambda>c. context_key (fc_context c) = k) cs"

definition call_entry :: "context_hasher \<Rightarrow> feedback_call \<Rightarrow> LearningEntry" where
  "call_entry h c =
     new_LearningEntry h (fresh_uuid (fc_readings c)) (t_entry (fc_readings c)) (fc_context c)
       (fc_user_action c) (fc_reason c) (fc_result c)"

text \<open>
  What the table holds under a key when the counters count the calls of a sequence.
\<close>

definition counted :: "feedback_call list \<Rightarrow> string \<Rightarrow> pattern_stats option \<Rightarrow> bool" where
  "counted cs k found =
     (case found of
        None \<Rightarrow> calls_for k cs = []
      | Some p \<Rightarrow>
          total_suggestions p = int (length (calls_for k cs)) \<and>
          accepted p = int (length (filter (\<lambda>c. fc_user_action c = ''accepted'') (calls_for k cs))) \<and>
          0 < total_suggestions p \<and>
          success_rate p = of_int (accepted p) / of_int (total_suggestions p))"




text \<open>Sample data: the action and the suggestion of scenario 1 of the specification.\<close>

definition sample_time :: datetime where
  "sample_time = \<lparr>year = 2024, month = 3, day = 15, hour = 10, minute = 30, second = 0,
                   microsecond = 0\<rparr>"

definition sample_readings :: readings where
  "sample_readings = \<lparr>fresh_uuid = ''u1'', t_entry = sample_time, t_pattern = sample_time,
                       t_update = sample_time\<rparr>"

definition sales_order :: action where
  "sales_order = \<lparr>act_type = Some (PyStr ''open_screen''),
                   act_payload = Some \<lparr>pl_screen = Some (PyStr ''SalesOrder'')\<rparr>\<rparr>"

definition sample_context :: suggestion_context where
  "sample_context =
     \<lparr>sc_original_action = Some sales_order,
      sc_suggested_action = Some \<lparr>sa_method = Some ''PUT'', sa_endpoint = Some ''/SalesOrder'',
                                  sa_body = None\<rparr>,
      sc_business_suggestion = Some ''Add related items?'',
      sc_business_context = None\<rparr>"

definition feedback :: "suggestion_context \<Rightarrow> string \<Rightarrow> string option \<Rightarrow> feedback_call" where
  "feedback sc ua rsn = \<lparr>fc_readings = sample_readings, fc_action_id = ''a1'', fc_context = sc,
                         fc_user_action = ua, fc_reason = rsn, fc_result = None\<rparr>"

definition sample_hasher :: context_hasher where
  "sample_hasher a s b = ''0''"




text \<open>
  An entry as the loader finds it in the file: its id, hash and features are those
  written when it was recorded, not those a new construction would give.
\<close>

definition stored_entry :: LearningEntry where
  "stored_entry =
     \<lparr>entry_id = ''e1'', timestamp = sample_time\<lparr>microsecond := 1234\<rparr>,
      suggestion_context = sample_context, user_action = ''accepted'', feedback_reason = None,
      entry_execution_result = Some ''{}'', context_hash = ''-77'',
      pattern_features = extract_pattern_features (sample_time\<lparr>hour := 9\<rparr>) sample_context\<rparr>"

subsection \<open>The similarity scan in the words of the specification\<close>

text \<open>
  The definitions \<open>screens_match\<close>, \<open>spec_score\<close>, \<open>spec_similar\<close> and
  \<open>spec_similar_contexts\<close> follow section 4.3 of the specification, not the code:
  the score of an entry is the sum of 0.5 for screens that match up to case (equal
  once lowered), 0.3 for equal action types and 0.2 for a Jaccard overlap above 0.3
  of the two sets of most common screens; the result is computed from the last 50
  entries, keeps the scores from 0.5 on, is sorted by descending score (ties in the
  original order) and cut to 5. An absent screen or type counts as the empty
  string; a \<^verbatim>\<open>null\<close> screen matches no screen. A screen is readable when it is
  not \<^verbatim>\<open>null\<close>.
\<close>

definition entry_action :: "LearningEntry \<Rightarrow> action" where
  "entry_action e = dict_get (sc_original_action (suggestion_context e)) empty_action"

definition entry_context :: "LearningEntry \<Rightarrow> business_ctx" where
  "entry_context e = dict_get (sc_business_context (suggestion_context e)) empty_ctx"

definition screen_value :: "action \<Rightarrow> pyval" where
  "screen_value a = dict_get (pl_screen (dict_get (act_payload a) empty_payload)) (PyStr [])"

definition readable_screen :: "action \<Rightarrow> bool" where
  "readable_screen a = (screen_value a \<noteq> PyNone)"

definition screen_text :: "action \<Rightarrow> string" where
  "screen_text a = (case screen_value a of PyNone \<Rightarrow> [] | PyStr s \<Rightarrow> s)"

definition screens_match :: "lowering \<Rightarrow> action \<Rightarrow> action \<Rightarrow> bool" where
  "screens_match lw a b =
     (case screen_value a of
        PyNone \<Rightarrow> False
      | PyStr s \<Rightarrow> (case screen_value b of PyNone \<Rightarrow> False | PyStr t \<Rightarrow> lw s = lw t))"

definition type_value :: "action \<Rightarrow> pyval" where
  "type_value a = dict_get (act_type a) (PyStr [])"

definition common_screens_of :: "business_ctx \<Rightarrow> string set" where
  "common_screens_of bc = set (dict_get (bc_most_common_screens bc) [])"

definition jaccard :: "string set \<Rightarrow> string set \<Rightarrow> real" where
  "jaccard A B = real (card (A \<inter> B)) / real (card (A \<union> B))"

definition spec_score :: "lowering \<Rightarrow> action \<Rightarrow> business_ctx \<Rightarrow> LearningEntry \<Rightarrow> real" where
  "spec_score lw ca bc e =
     (if screens_match lw (entry_action e) ca then 5 / 10 else 0) +
     (if type_value (entry_action e) = type_value ca then 3 / 10 else 0) +
     (if jaccard (common_screens_of bc) (common_screens_of (entry_context e)) > 3 / 10
      then 2 / 10 else 0)"

definition spec_similar :: "lowering \<Rightarrow> action \<Rightarrow> business_ctx \<Rightarrow> LearningEntry \<Rightarrow> similar" where
  "spec_similar lw ca bc e =
     \<lparr>sim_action = user_action e, similarity_score = spec_score lw ca bc e,
      sim_business_suggestion = take 100 (dict_get (sc_business_suggestion (suggestion_context e)) []),
      sim_feedback_reason = feedback_reason e, sim_timestamp = isoformat (timestamp e)\<rparr>"

definition spec_similar_contexts ::
  "lowering \<Rightarrow> LearningEntry list \<Rightarrow> action \<Rightarrow> business_ctx \<Rightarrow> similar list" where
  "spec_similar_contexts lw es ca bc =
     take 5 (sort_key (\<lambda>x. - similarity_score x)
       (filter (\<lambda>x. similarity_score x \<ge> 5 / 10) (map (spec_similar lw ca bc) (last_n 50 es))))"

definition scan_readable :: "LearningEntry list \<Rightarrow> action \<Rightarrow> bool" where
  "scan_readable es ca =
     (readable_screen ca \<and> list_all (\<lambda>e. readable_screen (entry_action e)) (last_n 50 es))"

definition lacks_type :: "action \<Rightarrow> bool" where
  "lacks_type a = (act_type a = None)"

definition lacks_screen :: "action \<Rightarrow> bool" where
  "lacks_screen a = (case act_payload a of None \<Rightarrow> True | Some p \<Rightarrow> pl_screen p = None)"

text \<open>
  Sample ledgers. In the first, a rejection is recorded for the sample action and
  then one for an action whose screen is \<^verbatim>\<open>null\<close> (the JSON
  \<^verbatim>\<open>{"type": "open_screen", "payload": {"screen": null}}\<close>). In the second, a
  rejection is recorded for an action that names neither type nor screen, and then
  the same one for the \<^verbatim>\<open>null\<close> screen.
\<close>

definition null_screen_action :: action where
  "null_screen_action = \<lparr>act_type = Some (PyStr ''open_screen''),
                          act_payload = Some \<lparr>pl_screen = Some PyNone\<rparr>\<rparr>"

definition null_screen_context :: suggestion_context where
  "null_screen_context = sample_context\<lparr>sc_original_action := Some null_screen_action\<rparr>"

definition poisoned_db :: LearningDatabase where
  "poisoned_db =
     record_all sample_hasher init_db
       [feedback sample_context ''rejected'' (Some ''wrong vendor''),
        feedback null_screen_context ''rejected'' None]"

definition untyped_action :: action where
  "untyped_action = \<lparr>act_type = None, act_payload = Some \<lparr>pl_screen = None\<rparr>\<rparr>"

definition untyped_context :: suggestion_context where
  "untyped_context = sample_context\<lparr>sc_original_action := Some untyped_action\<rparr>"

definition untyped_poisoned_db :: LearningDatabase where
  "untyped_poisoned_db =
     record_all sample_hasher init_db
       [feedback untyped_context ''rejected'' None,
        feedback null_screen_context ''rejected'' None]"

section \<open>Properties of the proposal store\<close>

text \<open>
  C1. \<open>Confirm\<close> returns the proposal exactly when the id is known, the status is
  pending and the reading of the clock is not after \<open>expires_at\<close>; it then stores and
  returns the proposal with status confirmed and \<open>confirmed_at\<close> stamped, and
  changes nothing else. When the proposal is pending and its time has passed,
  \<open>Confirm\<close> returns nothing and the only change of the store is that the proposal
  has status expired. For an unknown id, and for a proposal that is not pending,
  \<open>Confirm\<close> returns nothing and leaves the store as it was.
\<close>

theorem confirm_action_iff:
  "((\<exists>r. fst (confirm_action t_check t_stamp m aid) = Some r) \<longleftrightarrow>
      (\<exists>a. pending_actions m aid = Some a \<and> status a = ''pending'' \<and> t_check \<le> expires_at a))
   \<and> (\<forall>a. pending_actions m aid = Some a \<and> status a = ''pending'' \<and> t_check \<le> expires_at a \<longrightarrow>
          confirm_action t_check t_stamp m aid =
            (Some (a\<lparr>status := ''confirmed'', confirmed_at := Some t_stamp\<rparr>),
             m\<lparr>pending_actions := (pending_actions m)
                  (aid \<mapsto> a\<lparr>status := ''confirmed'', confirmed_at := Some t_stamp\<rparr>)\<rparr>))
   \<and> (\<forall>a. pending_actions m aid = Some a \<and> status a = ''pending'' \<and> t_check > expires_at a \<longrightarrow>
          confirm_action t_check t_stamp m aid =
            (None, m\<lparr>pending_actions := (pending_actions m)(aid \<mapsto> a\<lparr>status := ''expired''\<rparr>)\<rparr>))
   \<and> (\<forall>a. pending_actions m aid = Some a \<and> status a \<noteq> ''pending'' \<longrightarrow>
          confirm_action t_check t_stamp m aid = (None, m))
   \<and> (pending_actions m aid = None \<longrightarrow> confirm_action t_check t_stamp m aid = (None, m))"
  by (auto simp: confirm_action_def Let_def split: option.splits)

theorem confirm_action_iff_witness:
  "fst (confirm_action (minutes 29) (minutes 29 + 1) sample_manager ''p1'')
     = Some (sample_action\<lparr>status := ''confirmed'', confirmed_at := Some (minutes 29 + 1)\<rparr>)
   \<and> fst (confirm_action (minutes 31) (minutes 31) sample_manager ''p1'') = None
   \<and> map_option status
        (pending_actions (snd (confirm_action (minutes 31) (minutes 31) sample_manager ''p1'')) ''p1'')
       = Some ''expired''
   \<and> confirm_action (minutes 29) (minutes 29) init_manager ''p1'' = (None, init_manager)
   \<and> confirm_action (minutes 29) (minutes 29) (snd (reject_action 5 sample_manager ''p1'')) ''p1''
       = (None, snd (reject_action 5 sample_manager ''p1''))"
proof -
  have known: "pending_actions sample_manager ''p1'' = Some sample_action"
    by (simp add: sample_manager_def)
  have pending: "status sample_action = ''pending''"
    by (simp add: sample_action_def)
  have early: "minutes 29 \<le> expires_at sample_action"
    by (simp add: sample_action_def minutes_def)
  have late: "minutes 31 > expires_at sample_action"
    by (simp add: sample_action_def minutes_def)
  have unknown: "pending_actions init_manager ''p1'' = None"
    by (simp add: init_manager_def)
  have rejected: "pending_actions (snd (reject_action 5 sample_manager ''p1'')) ''p1''
                    = Some (sample_action\<lparr>status := ''rejected'', rejected_at := Some 5\<rparr>)"
    by (simp add: reject_action_def Let_def sample_manager_def sample_action_def)
  have not_pending: "status (sample_action\<lparr>status := ''rejected'', rejected_at := Some 5\<rparr>)
                       \<noteq> ''pending''"
    by simp
  note inst1 = confirm_action_iff [of "minutes 29" "minutes 29 + 1" sample_manager "''p1''"]
  note inst2 = confirm_action_iff [of "minutes 31" "minutes 31" sample_manager "''p1''"]
  note inst3 = confirm_action_iff [of "minutes 29" "minutes 29" init_manager "''p1''"]
  note inst4 = confirm_action_iff [of "minutes 29" "minutes 29"
                 "snd (reject_action 5 sample_manager ''p1'')" "''p1''"]
  from inst1 known pending early
  have "confirm_action (minutes 29) (minutes 29 + 1) sample_manager ''p1'' =
            (Some (sample_action\<lparr>status := ''confirmed'', confirmed_at := Some (minutes 29 + 1)\<rparr>),
             sample_manager\<lparr>pending_actions := (pending_actions sample_manager)
                  (''p1'' \<mapsto> sample_action\<lparr>status := ''confirmed'',
                                             confirmed_at := Some (minutes 29 + 1)\<rparr>)\<rparr>)"
    by blast
  moreover from inst2 known pending late
  have "confirm_action (minutes 31) (minutes 31) sample_manager ''p1'' =
          (None, sample_manager\<lparr>pending_actions := (pending_actions sample_manager)
                   (''p1'' \<mapsto> sample_action\<lparr>status := ''expired''\<rparr>)\<rparr>)"
    by blast
  moreover from inst3 unknown
  have "confirm_action (minutes 29) (minutes 29) init_manager ''p1'' = (None, init_manager)"
    by blast
  moreover from inst4 rejected not_pending
  have "confirm_action (minutes 29) (minutes 29) (snd (reject_action 5 sample_manager ''p1'')) ''p1''
          = (None, snd (reject_action 5 sample_manager ''p1''))"
    by blast
  ultimately show ?thesis by simp
qed

text \<open>
  C3 (as stated). The three causes of a failed \<open>Confirm\<close> are told apart by the
  specification, but the code returns \<^verbatim>\<open>None\<close> for each of them, and likewise for
  the two causes of a failed \<open>Reject\<close>: at the inputs below the causes differ and
  the results are equal.
\<close>

theorem failure_causes_not_distinguished:
  "spec_confirm_failure (minutes 31) init_manager ''p1'' = Some NotFound
   \<and> spec_confirm_failure (minutes 31) (snd (reject_action 5 sample_manager ''p1'')) ''p1''
       = Some AlreadyProcessed
   \<and> spec_confirm_failure (minutes 31) sample_manager ''p1'' = Some Expired
   \<and> fst (confirm_action (minutes 31) (minutes 31) init_manager ''p1'') = None
   \<and> fst (confirm_action (minutes 31) (minutes 31) (snd (reject_action 5 sample_manager ''p1'')) ''p1'')
       = None
   \<and> fst (confirm_action (minutes 31) (minutes 31) sample_manager ''p1'') = None
   \<and> spec_reject_failure init_manager ''p1'' = Some NotFound
   \<and> spec_reject_failure (snd (reject_action 5 sample_manager ''p1'')) ''p1'' = Some AlreadyProcessed
   \<and> fst (reject_action 9 init_manager ''p1'') = None
   \<and> fst (reject_action 9 (snd (reject_action 5 sample_manager ''p1'')) ''p1'') = None"
  by (simp add: spec_confirm_failure_def spec_reject_failure_def confirm_action_def
      reject_action_def Let_def init_manager_def sample_manager_def sample_action_def minutes_def)

text \<open>
  C3 (amended). A failed \<open>Confirm\<close> returns \<^verbatim>\<open>None\<close> whatever its cause, and a failed
  \<open>Reject\<close> returns \<^verbatim>\<open>None\<close> and leaves the store as it was. In particular, after
  a pending proposal is rejected, a second \<open>Reject\<close> on the same id returns
  \<^verbatim>\<open>None\<close> and changes nothing: the status stays rejected and \<open>rejected_at\<close>
  keeps the first stamp.
\<close>

theorem failed_confirm_reject_return_None:
  "(spec_confirm_failure t_check m aid = Some c \<longrightarrow>
      fst (confirm_action t_check t_stamp m aid) = None)
   \<and> (spec_reject_failure m aid = Some c' \<longrightarrow> reject_action t m aid = (None, m))
   \<and> (pending_actions m aid = Some a \<and> status a = ''pending'' \<longrightarrow>
        pending_actions (snd (reject_action t1 m aid)) aid
          = Some (a\<lparr>status := ''rejected'', rejected_at := Some t1\<rparr>)
        \<and> reject_action t2 (snd (reject_action t1 m aid)) aid
          = (None, snd (reject_action t1 m aid)))"
  by (auto simp: spec_confirm_failure_def spec_reject_failure_def confirm_action_def
      reject_action_def Let_def split: option.splits if_splits)

theorem failed_confirm_reject_return_None_witness:
  "fst (confirm_action (minutes 31) (minutes 31) sample_manager ''p1'') = None
   \<and> reject_action 9 init_manager ''p1'' = (None, init_manager)
   \<and> map_option rejected_at (pending_actions (snd (reject_action 5 sample_manager ''p1'')) ''p1'')
       = Some (Some 5)
   \<and> reject_action 9 (snd (reject_action 5 sample_manager ''p1'')) ''p1''
       = (None, snd (reject_action 5 sample_manager ''p1''))"
proof -
  have expired: "spec_confirm_failure (minutes 31) sample_manager ''p1'' = Some Expired"
    by (simp add: spec_confirm_failure_def sample_manager_def sample_action_def minutes_def)
  have unknown: "spec_reject_failure init_manager ''p1'' = Some NotFound"
    by (simp add: spec_reject_failure_def init_manager_def)
  have known: "pending_actions sample_manager ''p1'' = Some sample_action \<and>
               status sample_action = ''pending''"
    by (simp add: sample_manager_def sample_action_def)
  from failed_confirm_reject_return_None
         [of "minutes 31" sample_manager "''p1''" Expired "minutes 31" NotFound 9 sample_action 5 9]
       expired
  have a: "fst (confirm_action (minutes 31) (minutes 31) sample_manager ''p1'') = None"
    by blast
  from failed_confirm_reject_return_None
         [of 0 init_manager "''p1''" NotFound 0 NotFound 9 sample_action 5 9] unknown
  have b: "reject_action 9 init_manager ''p1'' = (None, init_manager)"
    by blast
  from failed_confirm_reject_return_None
         [of 0 sample_manager "''p1''" NotFound 0 NotFound 9 sample_action 5 9] known
  have c: "pending_actions (snd (reject_action 5 sample_manager ''p1'')) ''p1''
             = Some (sample_action\<lparr>status := ''rejected'', rejected_at := Some 5\<rparr>)
           \<and> reject_action 9 (snd (reject_action 5 sample_manager ''p1'')) ''p1''
             = (None, snd (reject_action 5 sample_manager ''p1''))"
    by blast
  from a b c show ?thesis by simp
qed

text \<open>
  C5. For every id in the store, whatever the status of its proposal,
  \<open>MarkExecuted\<close> stores and returns the proposal with status executed,
  \<open>executed_at\<close> stamped with the clock reading and \<open>execution_result\<close> set to the
  result given.
\<close>

theorem mark_executed_any_status:
  "pending_actions m aid = Some a \<Longrightarrow>
   mark_executed t m aid res =
     (Some (a\<lparr>status := ''executed'', executed_at := Some t, execution_result := Some res\<rparr>),
      m\<lparr>pending_actions := (pending_actions m)
           (aid \<mapsto> a\<lparr>status := ''executed'', executed_at := Some t,
                        execution_result := Some res\<rparr>)\<rparr>)"
  by (simp add: mark_executed_def Let_def)

theorem mark_executed_any_status_witness:
  "map_option status (pending_actions (snd (reject_action 5 sample_manager ''p1'')) ''p1'')
     = Some ''rejected''
   \<and> map_option (\<lambda>a. (status a, executed_at a, execution_result a))
        (fst (mark_executed 7 (snd (reject_action 5 sample_manager ''p1'')) ''p1'' ''ok''))
       = Some (''executed'', Some 7, Some ''ok'')"
proof -
  have known: "pending_actions (snd (reject_action 5 sample_manager ''p1'')) ''p1''
                 = Some (sample_action\<lparr>status := ''rejected'', rejected_at := Some 5\<rparr>)"
    by (simp add: reject_action_def Let_def sample_manager_def sample_action_def)
  from mark_executed_any_status [OF known, of 7 "''ok''"] known
  show ?thesis by simp
qed

text \<open>
  C8 (as stated). \<open>Confirm\<close>, \<open>Reject\<close> and \<open>MarkExecuted\<close> never call the sweep.
  Two days after its creation the sample proposal, whose \<open>expires_at\<close> is then more
  than 24 hours in the past, is still in the store after each of them.
\<close>

theorem no_sweep_on_confirm_reject_execute:
  "expires_at sample_action < hours 48 - hours 24
   \<and> map_option expires_at
        (pending_actions (snd (confirm_action (hours 48) (hours 48) sample_manager ''p1'')) ''p1'')
       = Some (expires_at sample_action)
   \<and> map_option expires_at
        (pending_actions (snd (reject_action (hours 48) sample_manager ''p1'')) ''p1'')
       = Some (expires_at sample_action)
   \<and> map_option expires_at
        (pending_actions (snd (mark_executed (hours 48) sample_manager ''p1'' ''ok'')) ''p1'')
       = Some (expires_at sample_action)"
  by (simp add: confirm_action_def reject_action_def mark_executed_def Let_def sample_manager_def
      sample_action_def minutes_def hours_def)

text \<open>
  C8 (amended). The sweep runs at the end of \<open>Propose\<close> and at the start of
  \<open>Get\<close>: after either, the store holds no proposal whose \<open>expires_at\<close> is more than
  24 hours before the sweep's reading of the clock, whatever its status. \<open>Confirm\<close>,
  \<open>Reject\<close> and \<open>MarkExecuted\<close> do not sweep: every proposal stays in the store
  with the \<open>expires_at\<close> it had.
\<close>

theorem sweep_runs_on_create_and_get:
  "(\<forall>k a. pending_actions (snd (create_pending_action nid t1 t2 t_sweep m sid orig sugg llm)) k = Some a
           \<longrightarrow> \<not> expires_at a < t_sweep - hours 24)
   \<and> (\<forall>k a. pending_actions (snd (get_pending_action t_sweep m aid)) k = Some a
           \<longrightarrow> \<not> expires_at a < t_sweep - hours 24)
   \<and> (\<forall>k. map_option expires_at (pending_actions (snd (confirm_action t_check t_stamp m aid)) k)
           = map_option expires_at (pending_actions m k))
   \<and> (\<forall>k. map_option expires_at (pending_actions (snd (reject_action t_stamp m aid)) k)
           = map_option expires_at (pending_actions m k))
   \<and> (\<forall>k. map_option expires_at (pending_actions (snd (mark_executed t_stamp m aid res)) k)
           = map_option expires_at (pending_actions m k))"
proof -
  have sweep: "\<not> expires_at a < t - hours 24"
    if "pending_actions (cleanup_expired t m') k = Some a" for t m' k a
    using that
    by (auto simp: cleanup_expired_def Let_def mark_expired_def split: option.splits if_splits)
  have "\<not> expires_at a < t_sweep - hours 24"
    if "pending_actions (snd (create_pending_action nid t1 t2 t_sweep m sid orig sugg llm)) k = Some a"
    for k a
    using that sweep by (simp add: create_pending_action_def Let_def)
  moreover have "\<not> expires_at a < t_sweep - hours 24"
    if "pending_actions (snd (get_pending_action t_sweep m aid)) k = Some a" for k a
    using that sweep by (simp add: get_pending_action_def Let_def)
  moreover have "map_option expires_at (pending_actions (snd (confirm_action t_check t_stamp m aid)) k)
                   = map_option expires_at (pending_actions m k)" for k
    by (simp add: confirm_action_def Let_def split: option.splits)
  moreover have "map_option expires_at (pending_actions (snd (reject_action t_stamp m aid)) k)
                   = map_option expires_at (pending_actions m k)" for k
    by (simp add: reject_action_def Let_def split: option.splits)
  moreover have "map_option expires_at (pending_actions (snd (mark_executed t_stamp m aid res)) k)
                   = map_option expires_at (pending_actions m k)" for k
    by (simp add: mark_executed_def Let_def split: option.splits)
  ultimately show ?thesis by blast
qed

theorem sweep_runs_on_create_and_get_witness:
  "pending_actions sample_manager ''p1'' = Some sample_action
   \<and> pending_actions
        (snd (create_pending_action ''p2'' (hours 48) (hours 48) (hours 48) sample_manager
                ''s1'' ''{}'' ''{}'' ''again?'')) ''p1'' = None
   \<and> map_option expires_at
        (pending_actions
          (snd (create_pending_action ''p2'' (hours 48) (hours 48) (hours 48) sample_manager
                  ''s1'' ''{}'' ''{}'' ''again?'')) ''p2'') = Some (hours 48 + minutes 30)
   \<and> \<not> (hours 48 + minutes 30 < hours 48 - hours 24)"
proof -
  let ?m = "snd (create_pending_action ''p2'' (hours 48) (hours 48) (hours 48) sample_manager
                  ''s1'' ''{}'' ''{}'' ''again?'')"
  have new: "map_option expires_at (pending_actions ?m ''p2'') = Some (hours 48 + minutes 30)"
    by (simp add: create_pending_action_def cleanup_expired_def mark_expired_def Let_def
        sample_manager_def sample_action_def minutes_def hours_def)
  then obtain a where a: "pending_actions ?m ''p2'' = Some a" "expires_at a = hours 48 + minutes 30"
    by auto
  from sweep_runs_on_create_and_get
         [of "''p2''" "hours 48" "hours 48" "hours 48" sample_manager "''s1''" "''{}''" "''{}''"
             "''again?''" "''p1''" 0 0 "''ok''"] a
  have kept: "\<not> (hours 48 + minutes 30 < hours 48 - hours 24)"
    by force
  have old: "pending_actions ?m ''p1'' = None"
    by (simp add: create_pending_action_def cleanup_expired_def mark_expired_def Let_def
        sample_manager_def sample_action_def minutes_def hours_def)
  have "pending_actions sample_manager ''p1'' = Some sample_action"
    by (simp add: sample_manager_def)
  with new kept old show ?thesis by simp
qed

section \<open>Properties of the feedback ledger\<close>

subsection \<open>Counters and success rate\<close>

lemma entry_key_new [simp]:
  "entry_key (new_LearningEntry h u t sc ua r res) = context_key sc"
  by (simp add: entry_key_def new_LearningEntry_def extract_pattern_features_def context_key_def
      guidance_key_def Let_def)

lemma entry_key_call_entry [simp]: "entry_key (call_entry h c) = context_key (fc_context c)"
  by (simp add: call_entry_def)

lemma user_action_call_entry [simp]: "user_action (call_entry h c) = fc_user_action c"
  by (simp add: call_entry_def new_LearningEntry_def)

lemma patterns_record_call:
  "patterns (record_call h db c)
     = snd (update_patterns (t_pattern (fc_readings c)) (t_update (fc_readings c)) (patterns db)
              (call_entry h c))"
  by (simp add: record_call_def record_feedback_def call_entry_def Let_def
      split: prod.splits option.splits)

lemma record_all_snoc: "record_all h db (cs @ [c]) = record_call h (record_all h db cs) c"
  by (simp add: record_all_def)

lemma update_patterns_valid:
  assumes "valid_user_action (user_action e)"
    and "0 \<le> total_suggestions (case pats (entry_key e) of None \<Rightarrow> new_pattern t1 | Some p \<Rightarrow> p)"
  shows "\<exists>p'. update_patterns t1 t2 pats e = (None, pats(entry_key e \<mapsto> p')) \<and>
          total_suggestions p'
            = total_suggestions (case pats (entry_key e) of None \<Rightarrow> new_pattern t1 | Some p \<Rightarrow> p) + 1 \<and>
          accepted p'
            = accepted (case pats (entry_key e) of None \<Rightarrow> new_pattern t1 | Some p \<Rightarrow> p)
                + (if user_action e = ''accepted'' then 1 else 0) \<and>
          success_rate p' = of_int (accepted p') / of_int (total_suggestions p')"
  using assms
  by (auto simp: update_patterns_def valid_user_action_def increment_key_def Let_def entry_key_def)

lemma record_call_counted:
  assumes inv: "\<forall>k. counted cs k (patterns db k)"
    and valid: "valid_user_action (fc_user_action c)"
  shows "counted (cs @ [c]) k (patterns (record_call h db c) k)"
proof -
  let ?e = "call_entry h c"
  let ?key = "context_key (fc_context c)"
  let ?old = "case patterns db ?key of None \<Rightarrow> new_pattern (t_pattern (fc_readings c)) | Some p \<Rightarrow> p"
  have old: "total_suggestions ?old = int (length (calls_for ?key cs)) \<and>
             accepted ?old
               = int (length (filter (\<lambda>c. fc_user_action c = ''accepted'') (calls_for ?key cs)))"
    using inv [rule_format, of ?key]
    by (auto simp: counted_def new_pattern_def split: option.splits)
  then have nonneg: "0 \<le> total_suggestions ?old" by simp
  from update_patterns_valid [where e = ?e and pats = "patterns db"
         and ?t1.0 = "t_pattern (fc_readings c)" and ?t2.0 = "t_update (fc_readings c)"]
       valid nonneg
  obtain p' where p':
    "update_patterns (t_pattern (fc_readings c)) (t_update (fc_readings c)) (patterns db) ?e
       = (None, (patterns db)(?key \<mapsto> p'))"
    "total_suggestions p' = total_suggestions ?old + 1"
    "accepted p' = accepted ?old + (if fc_user_action c = ''accepted'' then 1 else 0)"
    "success_rate p' = of_int (accepted p') / of_int (total_suggestions p')"
    by auto
  have pats: "patterns (record_call h db c) = (patterns db)(?key \<mapsto> p')"
    using p'(1) by (simp add: patterns_record_call)
  show ?thesis
  proof (cases "k = ?key")
    case True
    with pats p' old show ?thesis
      by (simp add: counted_def calls_for_def)
  next
    case False
    with pats inv [rule_format, of k] show ?thesis
      by (auto simp: counted_def calls_for_def split: option.splits)
  qed
qed

lemma record_all_counted:
  assumes "\<forall>c \<in> set cs. valid_user_action (fc_user_action c)"
  shows "counted cs k (patterns (record_all h init_db cs) k)"
  using assms
proof (induction cs arbitrary: k rule: rev_induct)
  case Nil
  then show ?case by (simp add: record_all_def init_db_def counted_def calls_for_def)
next
  case (snoc c cs)
  then have "\<forall>k. counted cs k (patterns (record_all h init_db cs) k)" by simp
  moreover from snoc have "valid_user_action (fc_user_action c)" by simp
  ultimately have "counted (cs @ [c]) k (patterns (record_call h (record_all h init_db cs) c) k)"
    by (rule record_call_counted)
  then show ?case by (simp add: record_all_snoc)
qed

text \<open>
  After any sequence of calls on an empty ledger, each with one of the user actions
  accepted, rejected and ignored, the statistics stored under every pattern key
  have as total the number of calls for that key, as accepted the number of those
  with the user action accepted, and as success rate exactly the quotient of the
  two.
\<close>

lemma success_rate_after_valid_feedback:
  assumes "\<forall>c \<in> set cs. valid_user_action (fc_user_action c)"
    and "patterns (record_all h init_db cs) k = Some p"
  shows "total_suggestions p = int (length (calls_for k cs)) \<and>
         accepted p = int (length (filter (\<lambda>c. fc_user_action c = ''accepted'') (calls_for k cs))) \<and>
         0 < total_suggestions p \<and>
         success_rate p = of_int (accepted p) / of_int (total_suggestions p)"
proof -
  from record_all_counted [OF assms(1), of k h] assms(2)
  have "counted cs k (Some p)" by simp
  then show ?thesis unfolding counted_def option.case .
qed

text \<open>
  C2. The user action is a string that the caller chooses, and
  \<^verbatim>\<open>_update_patterns\<close> increments the total (line 293) before it looks the user
  action up in the pattern (line 294). After an accepted suggestion, a second call
  for the same action with the user action \<^verbatim>\<open>dismissed\<close> raises \<^verbatim>\<open>KeyError\<close> at
  the lookup, so the recomputation of line 295 is skipped; \<^verbatim>\<open>record_feedback\<close>
  catches the exception and returns \<^verbatim>\<open>None\<close>. The table then holds 1 accepted out
  of 2 suggestions with the success rate still 1, not 1/2: the claim fails at this
  input.
\<close>

theorem success_rate_stale_after_unknown_action:
  "map_option (\<lambda>p. (accepted p, total_suggestions p, success_rate p))
     (patterns (record_all sample_hasher init_db
                  [feedback sample_context ''accepted'' None,
                   feedback sample_context ''dismissed'' None]) ''open_screen_SalesOrder'')
     = Some (1, 2, 1)
   \<and> (1 :: real) \<noteq> of_int 1 / of_int 2
   \<and> fst (record_feedback sample_hasher sample_readings
             (record_all sample_hasher init_db [feedback sample_context ''accepted'' None])
             ''a1'' sample_context ''dismissed'' None None) = None"
  by (simp add: record_all_def record_call_def record_feedback_def update_patterns_def
      new_LearningEntry_def feedback_def sample_context_def sales_order_def init_db_def
      extract_pattern_features_def make_pattern_key_def format_value_def dict_get_def
      increment_key_def new_pattern_def Let_def)

subsection \<open>The rolling lists\<close>











subsection \<open>Writing an entry and reading it back\<close>

lemma digit_value_digit_char: "d < 10 \<Longrightarrow> digit_value (digit_char d) = Some d"
  by (simp add: digit_value_def digit_char_def Let_def)

lemma length_zero_pad [simp]: "length (zero_pad k n) = k"
  by (induction k arbitrary: n) auto

lemma parse_digits_append:
  "parse_digits acc (xs @ ys) =
     (case parse_digits acc xs of None \<Rightarrow> None | Some a \<Rightarrow> parse_digits a ys)"
  by (induction xs arbitrary: acc) (auto split: option.splits)

lemma parse_digits_zero_pad:
  "parse_digits acc (zero_pad k n) = Some (acc * 10 ^ k + n mod 10 ^ k)"
proof (induction k arbitrary: n)
  case 0
  then show ?case by simp
next
  case (Suc k)
  have "n mod (10 * 10 ^ k) = 10 * (n div 10 mod 10 ^ k) + n mod 10"
    by (rule mod_mult2_eq)
  then show ?case
    by (simp add: parse_digits_append Suc.IH digit_value_digit_char algebra_simps)
qed

lemma parse_zero_pad: "n < 10 ^ k \<Longrightarrow> parse_digits 0 (zero_pad k n) = Some n"
  by (simp add: parse_digits_zero_pad)

lemma fromisoformat_isoformat:
  assumes "valid_datetime t"
  shows "fromisoformat (isoformat t) = Some t"
proof -
  from assms have r: "year t < 10 ^ 4" "month t < 10 ^ 2" "day t < 10 ^ 2" "hour t < 10 ^ 2"
    "minute t < 10 ^ 2" "second t < 10 ^ 2" "microsecond t < 10 ^ 6"
    by (auto simp: valid_datetime_def days_in_month_def split: if_splits)
  note p = r [THEN parse_zero_pad]
  show ?thesis
  proof (cases "microsecond t = 0")
    case True
    with assms p show ?thesis
      by (simp add: fromisoformat_def isoformat_def parse_field_def nth_append Let_def
          valid_datetime_def)
  next
    case False
    with assms p show ?thesis
      by (simp add: fromisoformat_def isoformat_def parse_field_def nth_append Let_def
          valid_datetime_def)
  qed
qed

text \<open>
  C9. For every entry (with a timestamp that is a datetime of Python),
  \<^verbatim>\<open>from_dict\<close> of its \<^verbatim>\<open>to_dict\<close> is the entry itself, field by field, whatever
  the UUID, the clock reading and the hash that the intermediate construction
  draws: id, timestamp, hash and features are the stored ones.
\<close>

theorem from_dict_to_dict:
  "valid_datetime (timestamp e) \<Longrightarrow> from_dict h new_uuid now (to_dict e) = Inr e"
  by (simp add: from_dict_def to_dict_def fromisoformat_isoformat new_LearningEntry_def Let_def)

theorem from_dict_to_dict_witness:
  "from_dict sample_hasher ''u2'' sample_time (to_dict stored_entry) = Inr stored_entry
   \<and> d_timestamp (to_dict stored_entry) = Some ''2024-03-15T10:30:00.001234''
   \<and> entry_id stored_entry \<noteq> ''u2'' \<and> timestamp stored_entry \<noteq> sample_time
   \<and> context_hash stored_entry
       \<noteq> generate_context_hash sample_hasher (suggestion_context stored_entry)
   \<and> pattern_features stored_entry
       \<noteq> extract_pattern_features sample_time (suggestion_context stored_entry)"
proof -
  have valid: "valid_datetime (timestamp stored_entry)"
    by (simp add: stored_entry_def sample_time_def valid_datetime_def days_in_month_def)
  have iso: "d_timestamp (to_dict stored_entry) = Some ''2024-03-15T10:30:00.001234''"
    by code_simp
  have differ: "entry_id stored_entry \<noteq> ''u2'' \<and> timestamp stored_entry \<noteq> sample_time
     \<and> context_hash stored_entry
         \<noteq> generate_context_hash sample_hasher (suggestion_context stored_entry)
     \<and> pattern_features stored_entry
         \<noteq> extract_pattern_features sample_time (suggestion_context stored_entry)"
    by (simp add: stored_entry_def sample_time_def generate_context_hash_def sample_hasher_def
        extract_pattern_features_def analyze_session_pattern_def Let_def)
  from from_dict_to_dict [OF valid, of sample_hasher "''u2''" sample_time] iso differ
  show ?thesis by simp
qed

subsection \<open>The similarity scan\<close>

lemma contexts_similar_jaccard:
  "contexts_similar c1 c2 = (jaccard (common_screens_of c1) (common_screens_of c2) > 3 / 10)"
proof -
  let ?A = "common_screens_of c1" and ?B = "common_screens_of c2"
  have fin: "finite ?A" "finite ?B" by (simp_all add: common_screens_of_def)
  show ?thesis
  proof (cases "?A \<noteq> {} \<and> ?B \<noteq> {}")
    case True
    with fin have "card (?A \<union> ?B) > 0" by (simp add: card_gt_0_iff)
    with True show ?thesis
      by (simp add: contexts_similar_def jaccard_def common_screens_of_def Let_def)
  next
    case False
    then have "?A \<inter> ?B = {}" by auto
    then have "jaccard ?A ?B = 0" by (simp add: jaccard_def)
    with False show ?thesis
      by (auto simp: contexts_similar_def common_screens_of_def Let_def)
  qed
qed

lemma screen_lower_readable:
  "readable_screen a \<Longrightarrow> screen_lower lw a = Inr (lw (screen_text a))"
  by (cases "screen_value a")
     (simp_all add: readable_screen_def screen_lower_def screen_text_def screen_value_def)

lemma screen_lower_unreadable:
  "\<not> readable_screen a \<Longrightarrow> screen_lower lw a = Inl AttributeError"
  by (simp add: readable_screen_def screen_lower_def screen_value_def)

lemma screens_match_readable:
  "readable_screen a \<Longrightarrow> readable_screen b \<Longrightarrow>
   screens_match lw a b = (lw (screen_text a) = lw (screen_text b))"
  by (cases "screen_value a"; cases "screen_value b")
     (simp_all add: readable_screen_def screens_match_def screen_text_def)

lemma similarity_of_unreadable:
  "\<not> readable_screen (entry_action e) \<Longrightarrow> similarity_of lw cs ct bc e = Inl AttributeError"
  using screen_lower_unreadable [of "entry_action e" lw]
  by (simp add: similarity_of_def entry_action_def Let_def)

lemma similarity_of_returns:
  "readable_screen (entry_action e) \<Longrightarrow> \<exists>r. similarity_of lw cs ct bc e = Inr r"
  using screen_lower_readable [of "entry_action e" lw]
  by (simp add: similarity_of_def entry_action_def Let_def)

lemma similarity_of_spec:
  assumes "readable_screen (entry_action e)" and "readable_screen ca"
  shows "similarity_of lw (lw (screen_text ca)) (type_value ca) bc e
           = Inr (if spec_score lw ca bc e \<ge> 5 / 10 then Some (spec_similar lw ca bc e) else None)"
proof -
  have lo: "screen_lower lw (dict_get (sc_original_action (suggestion_context e)) empty_action)
              = Inr (lw (screen_text (entry_action e)))"
    using screen_lower_readable [OF assms(1)] by (simp add: entry_action_def)
  have match: "screens_match lw (entry_action e) ca
                 = (lw (screen_text (entry_action e)) = lw (screen_text ca))"
    using assms by (rule screens_match_readable)
  have ty: "type_value (entry_action e)
              = dict_get (act_type (dict_get (sc_original_action (suggestion_context e)) empty_action))
                  (PyStr [])"
    by (simp add: type_value_def entry_action_def)
  have cx: "entry_context e = dict_get (sc_business_context (suggestion_context e)) empty_ctx"
    by (simp add: entry_context_def)
  show ?thesis
    by (simp add: similarity_of_def lo Let_def spec_score_def spec_similar_def
        contexts_similar_jaccard match ty cx)
qed

lemma scan_entries_spec:
  assumes "readable_screen ca" and "list_all (\<lambda>e. readable_screen (entry_action e)) es"
  shows "scan_entries lw (lw (screen_text ca)) (type_value ca) bc es acc
           = Inr (acc @ filter (\<lambda>x. similarity_score x \<ge> 5 / 10) (map (spec_similar lw ca bc) es))"
  using assms(2)
proof (induction es arbitrary: acc)
  case Nil
  then show ?case by simp
next
  case (Cons e es)
  then have e: "readable_screen (entry_action e)"
    and es: "list_all (\<lambda>e. readable_screen (entry_action e)) es"
    by simp_all
  have score: "similarity_score (spec_similar lw ca bc e) = spec_score lw ca bc e"
    by (simp add: spec_similar_def)
  show ?case
    using Cons.IH [OF es] similarity_of_spec [OF e assms(1), of lw bc] score
    by simp
qed

lemma scan_entries_raises:
  assumes "\<not> list_all (\<lambda>e. readable_screen (entry_action e)) es"
  shows "scan_entries lw cs ct bc es acc = Inl AttributeError"
  using assms
proof (induction es arbitrary: acc)
  case Nil
  then show ?case by simp
next
  case (Cons e es)
  show ?case
  proof (cases "readable_screen (entry_action e)")
    case False
    then show ?thesis by (simp add: similarity_of_unreadable)
  next
    case True
    with Cons.prems have rest: "\<not> list_all (\<lambda>e. readable_screen (entry_action e)) es" by simp
    from similarity_of_returns [OF True, of lw cs ct bc]
    obtain r where "similarity_of lw cs ct bc e = Inr r" by blast
    with Cons.IH [OF rest] show ?thesis by (cases r) simp_all
  qed
qed

text \<open>
  Whenever it returns, the scan of the code returns what the specification
  describes; it raises exactly when the screen of the current action or of one of
  the last 50 entries is \<^verbatim>\<open>null\<close>.
\<close>

lemma find_similar_contexts_spec:
  "find_similar_contexts lw es ca bc =
     (if scan_readable es ca then Inr (spec_similar_contexts lw es ca bc) else Inl AttributeError)"
proof (cases "readable_screen ca")
  case False
  then show ?thesis
    by (simp add: find_similar_contexts_def screen_lower_unreadable scan_readable_def)
next
  case True
  note ca = screen_lower_readable [OF True, of lw]
  show ?thesis
  proof (cases "list_all (\<lambda>e. readable_screen (entry_action e)) (last_n 50 es)")
    case all: True
    with True scan_entries_spec [OF True all, of lw bc "[]"] ca show ?thesis
      by (simp add: find_similar_contexts_def scan_readable_def spec_similar_contexts_def
          Let_def type_value_def)
  next
    case False
    with scan_entries_raises [OF False] ca show ?thesis
      by (simp add: find_similar_contexts_def scan_readable_def Let_def)
  qed
qed

lemma last_n_recent: "length recent = n \<Longrightarrow> last_n n (older @ recent) = recent"
  by (simp add: last_n_def)

lemma last_n_all: "length xs \<le> n \<Longrightarrow> last_n n xs = xs"
  by (simp add: last_n_def)

lemma find_similar_contexts_recent:
  assumes "length recent = 50"
  shows "find_similar_contexts lw (older @ recent) ca bc = find_similar_contexts lw recent ca bc"
proof -
  from assms have eq: "last_n 50 (older @ recent) = last_n 50 recent"
    by (simp add: last_n_recent last_n_all)
  show ?thesis unfolding find_similar_contexts_def eq by (rule refl)
qed

lemma spec_similar_contexts_props:
  "length (spec_similar_contexts lw es ca bc) \<le> 5"
  "sorted_wrt (\<lambda>x y. similarity_score x \<ge> similarity_score y) (spec_similar_contexts lw es ca bc)"
  "\<forall>x \<in> set (spec_similar_contexts lw es ca bc). similarity_score x \<ge> 5 / 10"
proof -
  let ?kept = "filter (\<lambda>x. similarity_score x \<ge> 5 / 10)
                 (map (spec_similar lw ca bc) (last_n 50 es))"
  show "length (spec_similar_contexts lw es ca bc) \<le> 5"
    by (simp add: spec_similar_contexts_def)
  have "sorted (map (\<lambda>x. - similarity_score x) (sort_key (\<lambda>x. - similarity_score x) ?kept))"
    by (rule sorted_sort_key)
  then have "sorted_wrt (\<lambda>x y. similarity_score x \<ge> similarity_score y)
               (sort_key (\<lambda>x. - similarity_score x) ?kept)"
    by (simp add: sorted_map)
  then show "sorted_wrt (\<lambda>x y. similarity_score x \<ge> similarity_score y)
               (spec_similar_contexts lw es ca bc)"
    unfolding spec_similar_contexts_def by (rule sorted_wrt_take)
  have "set (spec_similar_contexts lw es ca bc) \<subseteq> set ?kept"
    unfolding spec_similar_contexts_def using set_take_subset [of 5] by fastforce
  then show "\<forall>x \<in> set (spec_similar_contexts lw es ca bc). similarity_score x \<ge> 5 / 10"
    by auto
qed

lemma entries_record_call: "entries (record_call h db c) = entries db @ [call_entry h c]"
  by (simp add: record_call_def record_feedback_def call_entry_def Let_def
      split: prod.splits option.splits)

lemma entries_record_all: "entries (record_all h db cs) = entries db @ map (call_entry h) cs"
proof (induction cs rule: rev_induct)
  case Nil
  then show ?case by (simp add: record_all_def)
next
  case (snoc c cs)
  then show ?case by (simp add: record_all_snoc entries_record_call)
qed

text \<open>The two sample ledgers hold an entry whose screen is \<^verbatim>\<open>null\<close>.\<close>

lemma poisoned_not_readable:
  "\<not> scan_readable (entries poisoned_db) ca"
  "\<not> scan_readable (entries untyped_poisoned_db) ca"
  by (simp_all add: poisoned_db_def untyped_poisoned_db_def entries_record_all init_db_def
      scan_readable_def last_n_def readable_screen_def screen_value_def entry_action_def
      call_entry_def new_LearningEntry_def feedback_def null_screen_context_def
      null_screen_action_def dict_get_def)

text \<open>
  C7. The ledger holds a rejection for the sample action and, after it, a
  rejection for an action whose screen is \<^verbatim>\<open>null\<close>. Guidance is asked for the
  sample action. By the specification the similarity scan yields one match, the
  first entry with the score 0.8 (same screen, same type). In the code the scan
  raises \<^verbatim>\<open>AttributeError\<close> at \<^verbatim>\<open>.lower()\<close> of the \<^verbatim>\<open>null\<close> screen of the second
  entry (line 409), and the guidance returned is the two-key dictionary, without
  \<open>similar_contexts\<close>: the claim fails at this input.
\<close>

theorem similar_contexts_lost_on_null_screen:
  "map (\<lambda>x. (sim_action x, similarity_score x))
     (spec_similar_contexts lw (entries poisoned_db) sales_order empty_ctx) = [(''rejected'', 8 / 10)]
   \<and> find_similar_contexts lw (entries poisoned_db) sales_order empty_ctx = Inl AttributeError
   \<and> get_suggestion_guidance lw poisoned_db sales_order empty_ctx = Fallback True (5 / 10)"
proof -
  have spec: "map (\<lambda>x. (sim_action x, similarity_score x))
     (spec_similar_contexts lw (entries poisoned_db) sales_order empty_ctx) = [(''rejected'', 8 / 10)]"
    by (simp add: poisoned_db_def entries_record_all init_db_def spec_similar_contexts_def
        last_n_def spec_similar_def spec_score_def screens_match_def screen_value_def
        type_value_def entry_action_def entry_context_def common_screens_of_def jaccard_def
        call_entry_def new_LearningEntry_def feedback_def sample_context_def
        null_screen_context_def null_screen_action_def sales_order_def empty_ctx_def
        dict_get_def)
  have code: "find_similar_contexts lw (entries poisoned_db) sales_order empty_ctx
                = Inl AttributeError"
    by (simp add: find_similar_contexts_spec poisoned_not_readable)
  then have "get_suggestion_guidance lw poisoned_db sales_order empty_ctx = Fallback True (5 / 10)"
    by (simp add: get_suggestion_guidance_def Let_def)
  with spec code show ?thesis by simp
qed

subsection \<open>Guidance from the pattern statistics\<close>

text \<open>
  What \<^verbatim>\<open>get_suggestion_guidance\<close> returns when the scan returns, and when it
  raises.
\<close>

lemma guidance_from_pattern:
  "(\<forall>sim. find_similar_contexts lw (entries db) ca bc = Inr sim \<longrightarrow>
      (patterns db (guidance_key ca) = None \<longrightarrow>
         get_suggestion_guidance lw db ca bc =
           Guidance \<lparr>should_suggest = True, confidence_score = 5 / 10,
                      suggested_approach = ''standard'', avoid_patterns = [],
                      preferred_patterns = [], historical_success_rate = 0,
                      similar_contexts = sim\<rparr>) \<and>
      (\<forall>p. patterns db (guidance_key ca) = Some p \<longrightarrow>
         (\<exists>g. get_suggestion_guidance lw db ca bc = Guidance g \<and>
              historical_success_rate g = success_rate p \<and>
              confidence_score g = min (9 / 10) (success_rate p) \<and>
              (success_rate p < 3 / 10 \<longrightarrow>
                 \<not> should_suggest g \<and> suggested_approach g = ''cautious'') \<and>
              (\<not> success_rate p < 3 / 10 \<longrightarrow>
                 should_suggest g \<and> suggested_approach g = ''standard''))))
   \<and> (\<forall>err. find_similar_contexts lw (entries db) ca bc = Inl err \<longrightarrow>
         get_suggestion_guidance lw db ca bc = Fallback True (5 / 10))"
  by (simp add: get_suggestion_guidance_def pattern_guidance_def default_guidance_def Let_def)

lemma poisoned_db_patterns:
  "map_option (\<lambda>p. (total_suggestions p, success_rate p)) (patterns poisoned_db ''open_screen_None'')
     = Some (1, 0)"
  "map_option (\<lambda>p. (total_suggestions p, success_rate p))
     (patterns poisoned_db ''open_screen_SalesOrder'') = Some (1, 0)"
  by (simp_all add: poisoned_db_def record_all_def record_call_def record_feedback_def
      update_patterns_def new_LearningEntry_def feedback_def sample_context_def
      null_screen_context_def null_screen_action_def sales_order_def init_db_def
      extract_pattern_features_def make_pattern_key_def format_value_def dict_get_def
      increment_key_def new_pattern_def Let_def)

text \<open>
  C4. After the two rejections of the sample ledger, the pattern of the action with
  the \<^verbatim>\<open>null\<close> screen and the pattern of the sample action both exist with the
  success rate 0, below 0.3, and the method has set \<open>should_suggest\<close> to false from
  them (line 372). Then the similarity scan raises \<^verbatim>\<open>AttributeError\<close> at
  \<^verbatim>\<open>.lower()\<close> of a \<^verbatim>\<open>null\<close> screen (line 404 for the current action, line 409 for
  the entry of the ledger), and the method answers with the two-key dictionary:
  \<open>should_suggest\<close> is true, the confidence 0.5, and there is neither approach nor
  historical rate. The claim fails at both inputs.
\<close>

theorem guidance_fallback_ignores_pattern:
  "map_option success_rate (patterns poisoned_db (guidance_key null_screen_action)) = Some 0
   \<and> map_option success_rate (patterns poisoned_db (guidance_key sales_order)) = Some 0
   \<and> (0 :: real) < 3 / 10
   \<and> \<not> should_suggest (pattern_guidance (patterns poisoned_db (guidance_key null_screen_action)))
   \<and> \<not> should_suggest (pattern_guidance (patterns poisoned_db (guidance_key sales_order)))
   \<and> get_suggestion_guidance lw poisoned_db null_screen_action bc = Fallback True (5 / 10)
   \<and> get_suggestion_guidance lw poisoned_db sales_order bc = Fallback True (5 / 10)"
proof -
  have keys: "guidance_key null_screen_action = ''open_screen_None''"
    "guidance_key sales_order = ''open_screen_SalesOrder''"
    by (simp_all add: guidance_key_def null_screen_action_def sales_order_def
        make_pattern_key_def format_value_def dict_get_def)
  from poisoned_db_patterns(1)
  obtain p1 where p1: "patterns poisoned_db ''open_screen_None'' = Some p1" "success_rate p1 = 0"
    by auto
  from poisoned_db_patterns(2)
  obtain p2 where p2: "patterns poisoned_db ''open_screen_SalesOrder'' = Some p2" "success_rate p2 = 0"
    by auto
  have low: "\<not> should_suggest (pattern_guidance (Some p))" if "success_rate p = 0" for p
    using that by (simp add: pattern_guidance_def default_guidance_def Let_def)
  have fallback: "get_suggestion_guidance lw poisoned_db ca bc = Fallback True (5 / 10)" for ca
    by (simp add: get_suggestion_guidance_def find_similar_contexts_spec poisoned_not_readable
        Let_def)
  from keys p1 p2 low [OF p1(2)] low [OF p2(2)] fallback show ?thesis by simp
qed

subsection \<open>Missing type and screen\<close>

text \<open>
  An entry is aggregated under the key that guidance computes for its original
  action; the key has \<open>None\<close> in the place of a missing type or screen; a call changes
  the bucket of its key and no other.
\<close>

lemma entry_key_guidance_key:
  "entry_key (call_entry h c) = guidance_key (entry_action (call_entry h c))"
proof -
  have "entry_action (call_entry h c) = dict_get (sc_original_action (fc_context c)) empty_action"
    by (simp add: entry_action_def call_entry_def new_LearningEntry_def)
  then show ?thesis by (simp add: context_key_def)
qed

lemma guidance_key_lacking:
  "lacks_type a \<Longrightarrow> guidance_key a
     = ''None_'' @ format_value (dict_get (pl_screen (dict_get (act_payload a) empty_payload)) PyNone)"
  "lacks_screen a \<Longrightarrow> guidance_key a = format_value (dict_get (act_type a) PyNone) @ ''_None''"
  "lacks_type a \<Longrightarrow> lacks_screen a \<Longrightarrow> guidance_key a = ''None_None''"
  by (auto simp: lacks_type_def lacks_screen_def guidance_key_def make_pattern_key_def
      format_value_def dict_get_def empty_payload_def Let_def split: option.splits)

lemma record_call_touches_key:
  "\<exists>p. patterns (record_call h db c) = (patterns db)(context_key (fc_context c) \<mapsto> p)"
proof -
  have "\<exists>p. snd (update_patterns t1 t2 pats e) = pats(entry_key e \<mapsto> p)" for t1 t2 pats e
    by (auto simp: update_patterns_def Let_def entry_key_def split: sum.splits)
  from this [of "t_pattern (fc_readings c)" "t_update (fc_readings c)" "patterns db" "call_entry h c"]
  show ?thesis by (simp add: patterns_record_call)
qed

lemma untyped_poisoned_db_patterns:
  "map_option (\<lambda>p. (total_suggestions p, rejected p, success_rate p))
     (patterns untyped_poisoned_db ''None_None'') = Some (1, 1, 0)"
  by (simp add: untyped_poisoned_db_def record_all_def record_call_def record_feedback_def
      update_patterns_def new_LearningEntry_def feedback_def sample_context_def
      untyped_context_def untyped_action_def null_screen_context_def null_screen_action_def
      init_db_def extract_pattern_features_def make_pattern_key_def format_value_def
      dict_get_def increment_key_def new_pattern_def Let_def)

text \<open>
  C10. A rejection is recorded for an action that names neither type nor screen:
  its entry is aggregated under the key \<open>None_None\<close>, whose bucket then counts one
  suggestion, rejected, with the success rate 0. Guidance asked for the same action
  computes the same key and finds the bucket (from which \<open>should_suggest\<close> is
  false). But the ledger also holds an entry whose screen is \<^verbatim>\<open>null\<close>: the
  similarity scan raises on it (line 409) and the method answers with the two-key
  dictionary, \<open>should_suggest\<close> true, in which nothing is read from the bucket. The
  claim fails at this input.
\<close>

theorem none_bucket_lost_on_null_screen:
  "lacks_type untyped_action \<and> lacks_screen untyped_action
   \<and> entry_key (call_entry sample_hasher (feedback untyped_context ''rejected'' None)) = ''None_None''
   \<and> guidance_key untyped_action = ''None_None''
   \<and> map_option (\<lambda>p. (total_suggestions p, rejected p, success_rate p))
        (patterns untyped_poisoned_db ''None_None'') = Some (1, 1, 0)
   \<and> \<not> should_suggest (pattern_guidance (patterns untyped_poisoned_db ''None_None''))
   \<and> get_suggestion_guidance lw untyped_poisoned_db untyped_action bc = Fallback True (5 / 10)"
proof -
  have lacks: "lacks_type untyped_action \<and> lacks_screen untyped_action"
    by (simp add: lacks_type_def lacks_screen_def untyped_action_def)
  then have key: "guidance_key untyped_action = ''None_None''"
    by (simp add: guidance_key_lacking(3))
  have "entry_action (call_entry sample_hasher (feedback untyped_context ''rejected'' None))
          = untyped_action"
    by (simp add: entry_action_def call_entry_def new_LearningEntry_def feedback_def
        untyped_context_def dict_get_def)
  with key entry_key_guidance_key [of sample_hasher "feedback untyped_context ''rejected'' None"]
  have ekey: "entry_key (call_entry sample_hasher (feedback untyped_context ''rejected'' None))
                = ''None_None''"
    by simp
  from untyped_poisoned_db_patterns
  obtain p where p: "patterns untyped_poisoned_db ''None_None'' = Some p" "success_rate p = 0"
    by auto
  then have low: "\<not> should_suggest (pattern_guidance (patterns untyped_poisoned_db ''None_None''))"
    by (simp add: pattern_guidance_def default_guidance_def Let_def)
  have fallback: "get_suggestion_guidance lw untyped_poisoned_db untyped_action bc
                    = Fallback True (5 / 10)"
    by (simp add: get_suggestion_guidance_def find_similar_contexts_spec poisoned_not_readable
        Let_def)
  from lacks ekey key untyped_poisoned_db_patterns low fallback show ?thesis by simp
qed

end
